theory Spec2Isabelle
  imports Complex_Main "HOL-Library.Sublist" "HOL-Library.Stream"
begin

section \<open>Tap-timing feature extraction (utils/data_processing.py)\<close>

text \<open>
  Python floats are modelled as the reals they approximate. The three numpy
  functions the extractor calls are written out from numpy's documented meaning:
  \<^verbatim>\<open>np.diff(a)[i] = a[i+1] - a[i]\<close>, \<^verbatim>\<open>np.mean(a) = sum(a) / len(a)\<close> and
  \<^verbatim>\<open>np.std(a) = sqrt(mean(abs(a - mean(a)) ** 2))\<close> (the default \<^verbatim>\<open>ddof=0\<close>).
  On an empty array numpy's mean is \<^verbatim>\<open>nan\<close>; HOL's division gives 0 there.
  \<open>process_tapping_data\<close> never takes the mean of an empty array: its guard
  leaves at least one interval.
\<close>

definition np_diff :: "real list \<Rightarrow> real list" where
  "np_diff a = map (\<lambda>(x, y). y - x) (zip a (tl a))"

definition np_mean :: "real list \<Rightarrow> real" where
  "np_mean a = sum_list a / real (length a)"

definition np_std :: "real list \<Rightarrow> real" where
  "np_std a = sqrt (np_mean (map (\<lambda>x. \<bar>x - np_mean a\<bar> ^ 2) a))"

text \<open>The dict \<open>process_tapping_data\<close> returns, with its three keys.\<close>

record tapping_analysis =
  mean_interval :: real
  std_interval :: real
  risk_contribution :: real

definition process_tapping_data :: "real list \<Rightarrow> tapping_analysis" where
  "process_tapping_data tapping_timestamps =
     (if length tapping_timestamps < 2
      then \<lparr>mean_interval = 0, std_interval = 0, risk_contribution = 0\<rparr>
      else
        (let intervals = np_diff tapping_timestamps;
             mean_iv = np_mean intervals;
             std_iv = np_std intervals;
             risk = min 50 (std_iv * 100)
         in \<lparr>mean_interval = mean_iv, std_interval = std_iv, risk_contribution = risk\<rparr>))"

section \<open>Symptom checklist and session state (utils/data_processing.py, app.py)\<close>

text \<open>
  A Python dict is an association list in insertion order with distinct keys.
  \<open>dict_set\<close> is the assignment \<^verbatim>\<open>d[k] = v\<close>: an existing key keeps its place and
  takes the new value, a new key goes to the end.
\<close>

fun dict_set :: "'k \<Rightarrow> 'v \<Rightarrow> ('k \<times> 'v) list \<Rightarrow> ('k \<times> 'v) list" where
  "dict_set k v [] = [(k, v)]"
| "dict_set k v ((k', v') # d) =
     (if k' = k then (k, v) # d else (k', v') # dict_set k v d)"

definition load_symptom_checklist :: "(string \<times> string) list" where
  "load_symptom_checklist =
     [(''tremor'', ''Do you experience tremors or shaking in your hands, arms, legs, or jaw?''),
      (''rigidity'', ''Do you feel muscle stiffness or resistance to movement?''),
      (''bradykinesia'', ''Do you have slowness of movement or difficulty initiating movement?''),
      (''postural'', ''Do you have trouble with balance or experience falls?''),
      (''gait'', ''Do you have changes in your walking pattern, like shuffling steps or freezing?''),
      (''micrographia'', ''Has your handwriting become smaller or more crowded?''),
      (''speech'', ''Has your speech become softer, monotone, or slurred?''),
      (''facial'', ''Have you noticed reduced facial expression (masked face)?''),
      (''sleep'', ''Do you experience trouble sleeping or excessive daytime sleepiness?''),
      (''memory'', ''Do you have problems with memory or thinking clearly?'')]"

text \<open>One entry of the chat history: the dict \<^verbatim>\<open>{"role": ..., "content": ...}\<close>.\<close>

record message =
  role :: string
  content :: string

text \<open>
  \<^verbatim>\<open>st.session_state\<close>. The first four keys are set when the script starts;
  \<^verbatim>\<open>messages\<close> is absent (\<open>None\<close>) until \<open>show_personalize\<close> creates it.
  \<open>risk_score\<close> and \<open>tapping_data\<close> start as Python's \<^verbatim>\<open>None\<close>.
\<close>

record session_state =
  risk_score :: "real option"
  symptoms :: "(string \<times> string) list"
  tapping_data :: "real list option"
  report_generated :: bool
  messages :: "message list option"

definition initial_session_state :: session_state where
  "initial_session_state =
     \<lparr>risk_score = None, symptoms = [], tapping_data = None,
      report_generated = False, messages = None\<rparr>"

section \<open>Risk scoring (app.py, show_detect)\<close>

text \<open>
  \<^verbatim>\<open>sum(1 for s in st.session_state.symptoms.values() if s == "Yes")\<close>: the positive
  answer of the radio widget is the string \<^verbatim>\<open>"Yes"\<close>.
\<close>

definition symptom_score :: "(string \<times> string) list \<Rightarrow> nat" where
  "symptom_score symptoms_dict = length (filter (\<lambda>s. s = ''Yes'') (map snd symptoms_dict))"

text \<open>
  The body of the "Analyze Results" branch, as a function of the two session values it
  reads. \<^verbatim>\<open>if st.session_state.tapping_data:\<close> is Python truthiness: false for
  \<^verbatim>\<open>None\<close> and for an empty list. The code does no rounding and has no lower clamp;
  \<^verbatim>\<open>min(100, ...)\<close> is applied only inside the tapping branch.
\<close>

definition analyze_risk_score :: "(string \<times> string) list \<Rightarrow> real list option \<Rightarrow> real" where
  "analyze_risk_score symptoms_dict taps =
     (let risk = real (symptom_score symptoms_dict * 10)
      in case taps of
           Some (t # ts) \<Rightarrow>
             min 100 (risk + risk_contribution (process_tapping_data (t # ts)))
         | _ \<Rightarrow> risk)"

text \<open>
  What the user does on the Detect page in one run of the script: the radio choice
  for each widget key (\<open>True\<close> for "Yes", \<open>False\<close> for "No", the two options), the
  "Start Tapping Test" button together with what \<open>run_tapping_test\<close> then returned
  (\<open>None\<close> when the button is not pressed; the test reads the clock and is taken as
  input), and the "Analyze Results" button.
\<close>

record detect_input =
  radio :: "string \<Rightarrow> bool"
  start_tapping :: "real list option option"
  analyze :: bool

definition radio_value :: "bool \<Rightarrow> string" where
  "radio_value yes = (if yes then ''Yes'' else ''No'')"

text \<open>The checklist loop of \<open>show_detect\<close>: one assignment per catalog entry, in order.\<close>

definition checklist_loop ::
  "(string \<Rightarrow> bool) \<Rightarrow> (string \<times> string) list \<Rightarrow> (string \<times> string) list" where
  "checklist_loop choice symptoms_dict =
     fold (\<lambda>(symptom, question) d. dict_set symptom (radio_value (choice symptom)) d)
       load_symptom_checklist symptoms_dict"

text \<open>The effect of \<open>show_detect\<close> on the session state (its rendering calls are left out).\<close>

definition show_detect :: "detect_input \<Rightarrow> session_state \<Rightarrow> session_state" where
  "show_detect inp s =
     (let s1 = s\<lparr>symptoms := checklist_loop (radio inp) (symptoms s)\<rparr>;
          s2 = (case start_tapping inp of
                  None \<Rightarrow> s1
                | Some taps \<Rightarrow> s1\<lparr>tapping_data := taps\<rparr>)
      in if analyze inp
         then s2\<lparr>risk_score := Some (analyze_risk_score (symptoms s2) (tapping_data s2))\<rparr>
         else s2)"

section \<open>Rule-based dialogue (utils/rag_system.py)\<close>

text \<open>
  \<open>RESPONSE_RULES\<close> is a dict literal; iteration follows the order of declaration.
  Each key is a regular expression that is an alternation of plain words.
\<close>

definition RESPONSE_RULES :: "(string \<times> string list) list" where
  "RESPONSE_RULES =
     [(''symptom|sign|feel'',
       [''Common early symptoms include tremors, stiffness, and balance issues.'',
        ''Many people experience slight tremors in their hands or fingers as an early sign.'']),
      (''treat|medication|drug'',
       [''Treatment often includes medications like Levodopa and physical therapy.'',
        ''Doctors may prescribe various medications to manage symptoms effectively.'']),
      (''exercise|activity|physical'',
       [''Regular exercise like walking or swimming can help maintain mobility.'',
        ''Physical therapy is often recommended to improve balance and coordination.'']),
      (''diet|food|eat'',
       [''A balanced diet with plenty of fiber can help manage symptoms.'',
        ''Some people find that certain dietary changes help with their symptoms.'']),
      (''risk|chance|likely'',
       [''Risk factors include age, family history, and exposure to certain toxins.'',
        ''The risk increases with age, but Parkinson's can affect people of all ages.''])]"

definition DEFAULT_RESPONSES :: "string list" where
  "DEFAULT_RESPONSES =
     [''I'm here to help with information about neurological health.'',
      ''That's a good question about Parkinson's disease management.'',
      ''I can provide general information, but please consult a doctor for medical advice.'']"

text \<open>
  A Python string is a sequence of code points; here it is the list of its UTF-8
  bytes, so a string is ASCII (\<^verbatim>\<open>str.isascii()\<close>) when every byte is below 128. An
  ASCII byte never occurs inside the encoding of another code point, so searching for
  an ASCII word gives the same answer on the bytes as on the code points.
\<close>

definition str_isascii :: "string \<Rightarrow> bool" where
  "str_isascii s = list_all (\<lambda>c. (of_char c :: nat) < 128) s"

text \<open>
  \<^verbatim>\<open>str.lower()\<close>. On ASCII text the letters A to Z go to a to z and every other
  character stays. On text with other code points Python follows the Unicode
  character database (it sends, for one, the Kelvin sign U+212A to the letter k).
  That table is not part of the program: lower-casing of non-ASCII text is the
  parameter \<open>unicode_lower\<close>, and every property below holds whatever it is.
\<close>

definition lower_char :: "char \<Rightarrow> char" where
  "lower_char c =
     (case map_of (zip ''ABCDEFGHIJKLMNOPQRSTUVWXYZ'' ''abcdefghijklmnopqrstuvwxyz'') c of
        Some l \<Rightarrow> l
      | None \<Rightarrow> c)"

definition str_lower :: "(string \<Rightarrow> string) \<Rightarrow> string \<Rightarrow> string" where
  "str_lower unicode_lower s =
     (if str_isascii s then map lower_char s else unicode_lower s)"

text \<open>
  \<^verbatim>\<open>re.search(pattern, s)\<close> for the patterns of \<open>RESPONSE_RULES\<close>, whose only
  metacharacter is the bar: the pattern is found when one of its alternatives occurs
  in \<open>s\<close> as a contiguous substring.
\<close>

fun split_bar :: "string \<Rightarrow> string list" where
  "split_bar [] = [[]]"
| "split_bar (c # cs) =
     (if c = CHR ''|'' then [] # split_bar cs
      else (case split_bar cs of
              [] \<Rightarrow> [[c]]
            | alt # alts \<Rightarrow> (c # alt) # alts))"

definition re_search :: "string \<Rightarrow> string \<Rightarrow> bool" where
  "re_search pattern s = list_ex (\<lambda>alt. sublist alt s) (split_bar pattern)"

text \<open>
  Python exceptions that the modelled code can raise. The pseudo-random generator is
  the stream of its future draws; \<^verbatim>\<open>random.choice(seq)\<close> takes one draw and returns
  \<^verbatim>\<open>seq[draw mod len(seq)]\<close>, and raises \<^verbatim>\<open>IndexError\<close> on an empty sequence.
\<close>

datatype error = IndexError | AttributeError

type_synonym rng = "nat stream"

definition random_choice :: "'a list \<Rightarrow> rng \<Rightarrow> error + ('a \<times> rng)" where
  "random_choice seq g =
     (if seq = [] then Inl IndexError else Inr (seq ! (shd g mod length seq), stl g))"

text \<open>The \<^verbatim>\<open>for pattern, responses in RESPONSE_RULES.items()\<close> loop and the default after it.\<close>

fun rules_loop ::
  "(string \<times> string list) list \<Rightarrow> string \<Rightarrow> rng \<Rightarrow> error + (string \<times> rng)" where
  "rules_loop [] query g = random_choice DEFAULT_RESPONSES g"
| "rules_loop ((pattern, responses) # rules) query g =
     (if re_search pattern query then random_choice responses g
      else rules_loop rules query g)"

text \<open>\<open>risk_score\<close> is the optional second argument (default \<^verbatim>\<open>None\<close>).\<close>

definition get_response ::
  "(string \<Rightarrow> string) \<Rightarrow> string \<Rightarrow> real option \<Rightarrow> rng \<Rightarrow> error + (string \<times> rng)" where
  "get_response unicode_lower query risk_score_arg g =
     rules_loop RESPONSE_RULES (str_lower unicode_lower query) g"

section \<open>Reports (app.py, generate_report and generate_text_report)\<close>

text \<open>
  The value handed to \<^verbatim>\<open>json.dumps\<close>: numbers, strings, lists, and dicts in key
  order. \<open>generate_report\<close> is the dict the function builds; its last step,
  \<^verbatim>\<open>json.dumps(report, indent=2)\<close>, writes that dict out key by key. The clock reading
  \<^verbatim>\<open>str(datetime.now())\<close> is the argument \<open>now\<close>.
\<close>

datatype json =
  JNumber real
| JString string
| JArray "json list"
| JObject "(string \<times> json) list"

definition generate_report :: "(string \<times> string) list \<Rightarrow> real \<Rightarrow> string \<Rightarrow> json" where
  "generate_report symptoms_dict risk now =
     JObject
       [(''risk_score'', JNumber risk),
        (''symptoms'', JObject (map (\<lambda>(s, v). (s, JString v)) symptoms_dict)),
        (''date'', JString now),
        (''recommendations'',
           JArray
             [JString ''Discuss these results with a healthcare provider'',
              JString ''Monitor symptoms regularly'',
              JString ''Consider lifestyle modifications like regular exercise and a balanced diet''])]"

text \<open>Reading a dict: its keys in order (\<^verbatim>\<open>d.keys()\<close>) and the value at a key.\<close>

definition json_keys :: "json \<Rightarrow> string list" where
  "json_keys j = (case j of JObject kvs \<Rightarrow> map fst kvs | _ \<Rightarrow> [])"

definition json_get :: "string \<Rightarrow> json \<Rightarrow> json option" where
  "json_get k j = (case j of JObject kvs \<Rightarrow> map_of kvs k | _ \<Rightarrow> None)"

text \<open>\<^verbatim>\<open>sep.join(items)\<close>.\<close>

fun str_join :: "string \<Rightarrow> string list \<Rightarrow> string" where
  "str_join sep [] = []"
| "str_join sep [x] = x"
| "str_join sep (x # y # ys) = x @ sep @ str_join sep (y # ys)"

text \<open>\<^verbatim>\<open>[s for s, v in symptoms.items() if v == "Yes"]\<close>: the dict's own order.\<close>

definition positive_symptoms :: "(string \<times> string) list \<Rightarrow> string list" where
  "positive_symptoms symptoms_dict = map fst (filter (\<lambda>(s, v). v = ''Yes'') symptoms_dict)"

text \<open>
  The f-string of \<open>generate_text_report\<close>, line by line; every line ends with a
  newline. \<open>risk_text\<close> is how the f-string prints \<^verbatim>\<open>{risk_score}\<close>, and \<open>now\<close> is
  \<^verbatim>\<open>datetime.now().strftime("%Y-%m-%d %H:%M")\<close>.
\<close>

definition generate_text_report :: "(string \<times> string) list \<Rightarrow> string \<Rightarrow> string \<Rightarrow> string" where
  "generate_text_report symptoms_dict risk_text now =
     (let positive = positive_symptoms symptoms_dict
      in concat (map (\<lambda>line. line @ [CHR 0x0A])
           [''NeuroBridge Health Report'',
            ''Generated on: '' @ now,
            [],
            ''Risk Score: '' @ risk_text @ ''%'',
            [],
            ''Symptoms reported:'',
            (if positive \<noteq> [] then str_join '', '' positive else ''None''),
            [],
            ''Recommendations:'',
            ''- Discuss these results with a healthcare provider'',
            ''- Monitor symptoms regularly'',
            ''- Consider lifestyle modifications like regular exercise and a balanced diet'',
            [],
            ''Note: This is a screening tool, not a medical diagnosis.'']))"

section \<open>Pages behind the workflow gates (app.py)\<close>

text \<open>
  What a page shows, in order. Only the calls named here are recorded; charts, JSON
  views, download buttons and column layout are left out.
\<close>

datatype ui_event =
  Header string
| Subheader string
| Info string
| Warning string
| Success string
| ChatMessage string string
| Divider
| Button string
| ChatInput string
| Rerun

text \<open>One run of the script: the session state, the screen so far, the generator.\<close>

record app_run =
  state :: session_state
  screen :: "ui_event list"
  random_state :: rng

definition render :: "ui_event list \<Rightarrow> app_run \<Rightarrow> app_run" where
  "render events r = r\<lparr>screen := screen r @ events\<rparr>"

definition set_messages :: "message list \<Rightarrow> app_run \<Rightarrow> app_run" where
  "set_messages ms r = r\<lparr>state := (state r)\<lparr>messages := Some ms\<rparr>\<rparr>"

text \<open>
  \<open>show_connect\<close>: without a risk score it warns and returns; otherwise it builds and
  offers the two reports (not recorded here) and sets \<^verbatim>\<open>report_generated\<close>.
\<close>

definition show_connect :: "app_run \<Rightarrow> app_run" where
  "show_connect r =
     (let r0 = render [Header ''Connect with Caregivers''] r
      in case risk_score (state r0) of
           None \<Rightarrow>
             render [Warning ''Please complete the assessment in the Detect section first.''] r0
         | Some risk \<Rightarrow>
             render [Success ''Report generated successfully!'']
               ((render [Subheader ''Your Health Report''] r0)
                  \<lparr>state := (state r0)\<lparr>report_generated := True\<rparr>\<rparr>))"

text \<open>
  \<open>handle_user_query\<close>: \<^verbatim>\<open>st.session_state.messages\<close> raises \<^verbatim>\<open>AttributeError\<close>
  when the key was never created. An exception of \<open>get_response\<close> passes through.
\<close>

definition handle_user_query ::
  "(string \<Rightarrow> string) \<Rightarrow> string \<Rightarrow> app_run \<Rightarrow> error + app_run" where
  "handle_user_query unicode_lower query r =
     (case messages (state r) of
        None \<Rightarrow> Inl AttributeError
      | Some history \<Rightarrow>
          (case get_response unicode_lower query (risk_score (state r)) (random_state r) of
             Inl e \<Rightarrow> Inl e
           | Inr (response, g) \<Rightarrow>
               Inr ((render [ChatMessage ''user'' query, ChatMessage ''assistant'' response]
                      (set_messages
                         (history @ [\<lparr>role = ''user'', content = query\<rparr>,
                                     \<lparr>role = ''assistant'', content = response\<rparr>]) r))
                    \<lparr>random_state := g\<rparr>)))"

text \<open>
  What the user does on the Personalize page in one run: which suggested-question
  buttons are pressed (by index, the widget key \<^verbatim>\<open>q_i\<close>), the chat input
  (\<^verbatim>\<open>None\<close> when nothing was sent), and the "Clear Chat" button.
\<close>

record personalize_input =
  question_clicked :: "nat \<Rightarrow> bool"
  chat_prompt :: "string option"
  clear_chat :: bool

definition suggested_questions :: "string list" where
  "suggested_questions =
     [''What lifestyle changes can I make to improve my neurological health?'',
      ''How accurate is this assessment?'',
      ''What are the early signs of Parkinson's disease?'',
      ''Should I see a specialist based on my results?'',
      ''What exercises can help with coordination?'',
      ''How often should I monitor my symptoms?'']"

text \<open>The \<^verbatim>\<open>for i, question in enumerate(questions)\<close> loop, from index \<open>i\<close> on.\<close>

fun question_buttons ::
  "(string \<Rightarrow> string) \<Rightarrow> (nat \<Rightarrow> bool) \<Rightarrow> nat \<Rightarrow> string list \<Rightarrow> app_run \<Rightarrow>
     error + app_run" where
  "question_buttons unicode_lower clicked i [] r = Inr r"
| "question_buttons unicode_lower clicked i (question # questions) r =
     (let r1 = render [Button question] r
      in if clicked i
         then (case handle_user_query unicode_lower question r1 of
                 Inl e \<Rightarrow> Inl e
               | Inr r2 \<Rightarrow> question_buttons unicode_lower clicked (Suc i) questions r2)
         else question_buttons unicode_lower clicked (Suc i) questions r1)"

text \<open>
  \<open>show_personalize\<close>. The gate comes first: without a generated report the page
  shows its header and a warning, and returns. The two titles that start with an
  emoji are given by the UTF-8 bytes of the emoji followed by the text.
\<close>

definition show_personalize ::
  "(string \<Rightarrow> string) \<Rightarrow> personalize_input \<Rightarrow> app_run \<Rightarrow> error + app_run" where
  "show_personalize unicode_lower inp r =
     (let r0 = render [Header ''Personalized Care Plan''] r
      in if \<not> report_generated (state r0)
         then Inr (render [Warning ''Please generate a report in the Connect section first.''] r0)
         else
           (let r1 = render
                  [Subheader ''Care Plan Assistant'',
                   Info ''Ask questions about your results or get personalized recommendations for improving your neurological health.'']
                  r0;
                history = (case messages (state r1) of None \<Rightarrow> [] | Some ms \<Rightarrow> ms);
                r2 = set_messages history r1;
                r3 = render (map (\<lambda>m. ChatMessage (role m) (content m)) history) r2;
                r4 = render
                  [Divider,
                   Subheader ([CHR 0xF0, CHR 0x9F, CHR 0x92, CHR 0xA1] @ '' Suggested Questions'')]
                  r3
            in case question_buttons unicode_lower (question_clicked inp) 0 suggested_questions r4 of
                 Inl e \<Rightarrow> Inl e
               | Inr r5 \<Rightarrow>
                   (let r6 = render [Divider, ChatInput ''Ask a question about your care plan...''] r5;
                        asked = (case chat_prompt inp of
                                   Some (c # cs) \<Rightarrow> handle_user_query unicode_lower (c # cs) r6
                                 | _ \<Rightarrow> Inr r6)
                    in case asked of
                         Inl e \<Rightarrow> Inl e
                       | Inr r7 \<Rightarrow>
                           (let r8 = render
                                  [Button ([CHR 0xF0, CHR 0x9F, CHR 0x97, CHR 0x91,
                                            CHR 0xEF, CHR 0xB8, CHR 0x8F] @ '' Clear Chat'')]
                                  r7
                            in if clear_chat inp
                               then Inr (render [Rerun] (set_messages [] r8))
                               else Inr r8))))"

section \<open>Properties of the feature extractor\<close>

lemma length_np_diff: "length (np_diff a) = length a - 1"
  by (simp add: np_diff_def)

lemma nth_np_diff:
  assumes "Suc i < length a"
  shows "np_diff a ! i = a ! Suc i - a ! i"
  using assms by (simp add: np_diff_def nth_tl)

lemma np_mean_sum_nth: "np_mean a = (\<Sum>i<length a. a ! i) / real (length a)"
  by (simp add: np_mean_def sum_list_sum_nth atLeast0LessThan)

lemma np_std_sum_nth:
  "np_std a = sqrt ((\<Sum>i<length a. (a ! i - np_mean a) ^ 2) / real (length a))"
proof -
  have "sum_list (map (\<lambda>x. \<bar>x - np_mean a\<bar> ^ 2) a) = (\<Sum>i<length a. (a ! i - np_mean a) ^ 2)"
    by (simp add: sum_list_sum_nth atLeast0LessThan)
  then show ?thesis
    by (simp add: np_std_def np_mean_def)
qed

lemma np_mean_nonneg:
  assumes "\<And>x. x \<in> set a \<Longrightarrow> 0 \<le> x"
  shows "0 \<le> np_mean a"
  using assms by (simp add: np_mean_def sum_list_nonneg)

lemma np_std_nonneg: "0 \<le> np_std a"
  unfolding np_std_def by (rule real_sqrt_ge_zero, rule np_mean_nonneg) auto

lemma risk_contribution_process:
  "risk_contribution (process_tapping_data taps) =
     (if length taps < 2 then 0 else min 50 (np_std (np_diff taps) * 100))"
  by (simp add: process_tapping_data_def Let_def)

lemma risk_contribution_nonneg: "0 \<le> risk_contribution (process_tapping_data taps)"
  using np_std_nonneg [of "np_diff taps"] by (simp add: risk_contribution_process)

lemma risk_contribution_le_50: "risk_contribution (process_tapping_data taps) \<le> 50"
  by (simp add: risk_contribution_process)

lemma np_diff_nonneg:
  assumes "sorted a" and "x \<in> set (np_diff a)"
  shows "0 \<le> x"
proof -
  from assms(2) obtain i where i: "i < length (np_diff a)" and x: "x = np_diff a ! i"
    by (auto simp: in_set_conv_nth)
  from i have lt: "Suc i < length a"
    by (simp add: length_np_diff)
  with assms(1) have "a ! i \<le> a ! Suc i"
    by (simp add: sorted_iff_nth_mono)
  with x lt show ?thesis
    by (simp add: nth_np_diff)
qed

text \<open>
  C4. A tap sequence with fewer than two timestamps (empty, or a single one) gives the
  degenerate record: all three fields are 0. The model is a total function, so the
  call returns.
\<close>

theorem process_tapping_data_degenerate:
  assumes "length taps < 2"
  shows "process_tapping_data taps =
           \<lparr>mean_interval = 0, std_interval = 0, risk_contribution = 0\<rparr>"
  using assms by (simp add: process_tapping_data_def)

theorem process_tapping_data_degenerate_witness:
  "length [3 / 2 :: real] < 2 \<and>
   process_tapping_data [3 / 2] =
     \<lparr>mean_interval = 0, std_interval = 0, risk_contribution = 0\<rparr> \<and>
   length ([] :: real list) < 2 \<and>
   process_tapping_data [] =
     \<lparr>mean_interval = 0, std_interval = 0, risk_contribution = 0\<rparr>"
  using process_tapping_data_degenerate [of "[3 / 2]"] process_tapping_data_degenerate [of "[]"]
  by simp

text \<open>
  C3. For a tap sequence of at least two timestamps, with \<open>n = len(taps) - 1\<close>
  intervals \<open>taps[i+1] - taps[i]\<close>: \<open>mean_interval\<close> is their sum divided by \<open>n\<close>,
  \<open>std_interval\<close> is the square root of the sum of squared deviations from that mean
  divided by \<open>n\<close> (the population form: the divisor is the count, not the count minus
  one), and \<open>risk_contribution\<close> is \<open>min(50, std_interval * 100)\<close>. Hence the
  contribution lies in [0, 50], and it is non-decreasing in \<open>std_interval\<close>: a second
  sequence whose standard deviation is at least as large has a contribution at least as
  large. With non-decreasing timestamps every interval, and so the mean, is non-negative.
\<close>

theorem process_tapping_data_features:
  assumes "2 \<le> length taps"
  shows
    "(let n = length taps - 1;
          iv = (\<lambda>i. taps ! Suc i - taps ! i);
          m = (\<Sum>i<n. iv i) / real n;
          sd = sqrt ((\<Sum>i<n. (iv i - m) ^ 2) / real n);
          f = process_tapping_data taps
      in mean_interval f = m \<and>
         std_interval f = sd \<and>
         risk_contribution f = min 50 (sd * 100) \<and>
         0 \<le> risk_contribution f \<and> risk_contribution f \<le> 50 \<and>
         (sorted taps \<longrightarrow> (\<forall>i<n. 0 \<le> iv i) \<and> 0 \<le> mean_interval f) \<and>
         (\<forall>taps'. 2 \<le> length taps' \<longrightarrow>
            std_interval f \<le> std_interval (process_tapping_data taps') \<longrightarrow>
            risk_contribution f \<le> risk_contribution (process_tapping_data taps')))"
proof -
  define n where "n = length taps - 1"
  define iv where "iv = (\<lambda>i. taps ! Suc i - taps ! i)"
  define m where "m = (\<Sum>i<n. iv i) / real n"
  define sd where "sd = sqrt ((\<Sum>i<n. (iv i - m) ^ 2) / real n)"
  define f where "f = process_tapping_data taps"
  have len: "length (np_diff taps) = n"
    by (simp add: length_np_diff n_def)
  have nth: "np_diff taps ! i = iv i" if "i < n" for i
    using that assms by (simp add: nth_np_diff iv_def n_def)
  have mean: "np_mean (np_diff taps) = m"
    by (simp add: np_mean_sum_nth len nth m_def)
  have std: "np_std (np_diff taps) = sd"
    by (simp add: np_std_sum_nth len nth mean sd_def)
  have f_mean: "mean_interval f = m"
    using assms by (simp add: f_def process_tapping_data_def Let_def mean)
  have f_std: "std_interval f = sd"
    using assms by (simp add: f_def process_tapping_data_def Let_def std)
  have f_risk: "risk_contribution f = min 50 (sd * 100)"
    using assms by (simp add: f_def process_tapping_data_def Let_def std)
  have bounds: "0 \<le> risk_contribution f \<and> risk_contribution f \<le> 50"
    unfolding f_def using risk_contribution_nonneg risk_contribution_le_50 by blast
  have sorted_part: "(\<forall>i<n. 0 \<le> iv i) \<and> 0 \<le> mean_interval f" if srt: "sorted taps"
  proof
    show "\<forall>i<n. 0 \<le> iv i"
    proof (intro allI impI)
      fix i assume "i < n"
      then have "Suc i < length taps" by (simp add: n_def)
      with srt have "taps ! i \<le> taps ! Suc i" by (simp add: sorted_iff_nth_mono)
      then show "0 \<le> iv i" by (simp add: iv_def)
    qed
    have "0 \<le> np_mean (np_diff taps)"
      by (rule np_mean_nonneg) (rule np_diff_nonneg [OF srt])
    then show "0 \<le> mean_interval f" by (simp add: f_mean mean)
  qed
  have mono: "risk_contribution f \<le> risk_contribution (process_tapping_data taps')"
    if "2 \<le> length taps'" "std_interval f \<le> std_interval (process_tapping_data taps')"
    for taps'
  proof -
    have "std_interval (process_tapping_data taps') = np_std (np_diff taps')"
      using that(1) by (simp add: process_tapping_data_def Let_def)
    moreover have "risk_contribution (process_tapping_data taps') =
        min 50 (np_std (np_diff taps') * 100)"
      using that(1) by (simp add: risk_contribution_process)
    ultimately show ?thesis
      using that(2) by (simp add: f_risk f_std min_def)
  qed
  show ?thesis
    unfolding Let_def
    using f_mean f_std f_risk bounds sorted_part mono
    unfolding n_def iv_def m_def sd_def f_def
    by blast
qed

lemma sqrt_one_40000: "sqrt (1 / 40000) = 1 / 200"
  by (rule real_sqrt_unique) (simp_all add: power2_eq_square)

theorem process_tapping_data_features_witness:
  "2 \<le> length [0, 1 / 2, 101 / 100 :: real] \<and>
   mean_interval (process_tapping_data [0, 1 / 2, 101 / 100]) = 101 / 200 \<and>
   std_interval (process_tapping_data [0, 1 / 2, 101 / 100]) = 1 / 200 \<and>
   risk_contribution (process_tapping_data [0, 1 / 2, 101 / 100]) = 1 / 2"
  using process_tapping_data_features [of "[0, 1 / 2, 101 / 100]"]
  by (simp add: Let_def lessThan_Suc power2_eq_square sqrt_one_40000)

section \<open>Properties of the risk score\<close>

lemma risk_contribution_example:
  "risk_contribution (process_tapping_data [0, 1 / 2, 101 / 100]) = 1 / 2"
  by (simp add: risk_contribution_process np_diff_def np_std_def np_mean_def
      power2_eq_square sqrt_one_40000)

lemma symptom_score_positive: "symptom_score d = length (positive_symptoms d)"
  by (induction d) (auto simp: symptom_score_def positive_symptoms_def)

lemma set_positive_symptoms: "set (positive_symptoms d) = {s. (s, ''Yes'') \<in> set d}"
  by (induction d) (auto simp: positive_symptoms_def)

lemma distinct_positive_symptoms:
  assumes "distinct (map fst d)"
  shows "distinct (positive_symptoms d)"
  using assms unfolding positive_symptoms_def by (rule distinct_map_filter)

lemma symptom_score_card:
  assumes "distinct (map fst d)"
  shows "symptom_score d = card {s. (s, ''Yes'') \<in> set d}"
  using distinct_card [OF distinct_positive_symptoms [OF assms]]
  by (simp add: symptom_score_positive set_positive_symptoms)

lemma symptom_score_le_length: "symptom_score d \<le> length d"
  by (simp add: symptom_score_def le_trans [OF length_filter_le])

lemma symptom_score_le_10:
  assumes "distinct (map fst d)" and "set (map fst d) \<subseteq> set (map fst load_symptom_checklist)"
  shows "symptom_score d \<le> 10"
proof -
  have "length d = card (set (map fst d))"
    using assms(1) by (metis distinct_card length_map)
  also have "\<dots> \<le> card (set (map fst load_symptom_checklist))"
    using assms(2) by (intro card_mono) auto
  also have "\<dots> \<le> length (map fst load_symptom_checklist)"
    by (rule card_length)
  also have "\<dots> = 10"
    by (simp add: load_symptom_checklist_def)
  finally have "length d \<le> 10" .
  with symptom_score_le_length [of d] show ?thesis by linarith
qed

lemma analyze_risk_score_cases:
  "analyze_risk_score d taps =
     (case taps of
        None \<Rightarrow> real (10 * symptom_score d)
      | Some [] \<Rightarrow> real (10 * symptom_score d)
      | Some (t # ts) \<Rightarrow>
          min 100 (real (10 * symptom_score d) + risk_contribution (process_tapping_data (t # ts))))"
  by (simp add: analyze_risk_score_def Let_def mult.commute split: option.splits list.splits)

lemma risk_contribution_Nil: "risk_contribution (process_tapping_data []) = 0"
  by (simp add: risk_contribution_process)

text \<open>
  C1. For responses whose keys are distinct catalog ids (a dict over the catalog) and
  any optional tap sequence, the score is \<open>clamp(10 * count + contribution, 0, 100)\<close>,
  where \<open>count\<close> is the number of ids whose answer is "Yes" and \<open>contribution\<close> is the
  extractor's \<open>risk_contribution\<close> when taps are present and 0 when they are absent.
  So the score lies in [0, 100]; ten "Yes" answers score 100 whatever the taps are;
  and empty responses without taps score 0.
\<close>

theorem analyze_risk_score_clamp:
  assumes "distinct (map fst responses)"
    and "set (map fst responses) \<subseteq> set (map fst load_symptom_checklist)"
  shows "(let yes_count = card {s. (s, ''Yes'') \<in> set responses};
              contribution = (case taps of
                                None \<Rightarrow> 0
                              | Some ts \<Rightarrow> risk_contribution (process_tapping_data ts))
          in analyze_risk_score responses taps =
               max 0 (min 100 (10 * real yes_count + contribution)) \<and>
             0 \<le> analyze_risk_score responses taps \<and>
             analyze_risk_score responses taps \<le> 100 \<and>
             (yes_count = 10 \<longrightarrow> analyze_risk_score responses taps = 100)) \<and>
         analyze_risk_score [] None = 0"
proof -
  define yes_count where "yes_count = card {s. (s, ''Yes'') \<in> set responses}"
  define contribution where
    "contribution = (case taps of
                       None \<Rightarrow> 0
                     | Some ts \<Rightarrow> risk_contribution (process_tapping_data ts))"
  have count: "symptom_score responses = yes_count"
    unfolding yes_count_def by (rule symptom_score_card [OF assms(1)])
  have le: "10 * real yes_count \<le> 100"
    using symptom_score_le_10 [OF assms] by (simp add: count)
  have rc: "0 \<le> risk_contribution (process_tapping_data ts)" for ts
    by (rule risk_contribution_nonneg)
  have contribution_nonneg: "0 \<le> contribution"
    using rc by (simp add: contribution_def split: option.splits)
  have eq: "analyze_risk_score responses taps =
           max 0 (min 100 (10 * real yes_count + contribution))"
  proof (cases taps)
    case None
    then show ?thesis
      using le by (simp add: analyze_risk_score_cases count contribution_def)
  next
    case (Some ts)
    show ?thesis
    proof (cases ts)
      case Nil
      with Some le show ?thesis
        by (simp add: analyze_risk_score_cases count contribution_def risk_contribution_Nil)
    next
      case (Cons t ts')
      with Some rc [of "t # ts'"] show ?thesis
        by (simp add: analyze_risk_score_cases count contribution_def)
    qed
  qed
  have lo: "0 \<le> analyze_risk_score responses taps"
    by (subst eq) simp
  have hi: "analyze_risk_score responses taps \<le> 100"
    by (subst eq) simp
  have sat: "analyze_risk_score responses taps = 100" if "yes_count = 10"
    using contribution_nonneg by (subst eq) (simp add: that)
  have empty: "analyze_risk_score [] None = 0"
    by (simp add: analyze_risk_score_cases symptom_score_def)
  from eq lo hi sat empty show ?thesis
    unfolding Let_def yes_count_def [symmetric] contribution_def [symmetric] by blast
qed


theorem analyze_risk_score_clamp_witness:
  "distinct (map fst [(''tremor'', ''Yes''), (''rigidity'', ''No''), (''gait'', ''Yes'')]) \<and>
   set (map fst [(''tremor'', ''Yes''), (''rigidity'', ''No''), (''gait'', ''Yes'')])
     \<subseteq> set (map fst load_symptom_checklist) \<and>
   card {s. (s, ''Yes'') \<in> set [(''tremor'', ''Yes''), (''rigidity'', ''No''), (''gait'', ''Yes'')]} = 2 \<and>
   analyze_risk_score [(''tremor'', ''Yes''), (''rigidity'', ''No''), (''gait'', ''Yes'')] None = 20 \<and>
   analyze_risk_score [(''tremor'', ''Yes''), (''rigidity'', ''No''), (''gait'', ''Yes'')]
     (Some [0, 1 / 2, 101 / 100]) = 41 / 2"
proof -
  let ?d = "[(''tremor'', ''Yes''), (''rigidity'', ''No''), (''gait'', ''Yes'')]"
  have keys: "distinct (map fst ?d)"
    by simp
  have valid: "set (map fst ?d) \<subseteq> set (map fst load_symptom_checklist)"
    by (simp add: load_symptom_checklist_def)
  have "{s. (s, ''Yes'') \<in> set ?d} = {''tremor'', ''gait''}"
    by auto
  then have count: "card {s. (s, ''Yes'') \<in> set ?d} = 2"
    by simp
  have no_taps: "analyze_risk_score ?d None = 20"
    using analyze_risk_score_clamp [OF keys valid, of None, unfolded Let_def count]
    by simp
  have taps: "analyze_risk_score ?d (Some [0, 1 / 2, 101 / 100]) = 41 / 2"
    using analyze_risk_score_clamp
      [OF keys valid, of "Some [0, 1 / 2, 101 / 100]", unfolded Let_def count]
    by (simp add: risk_contribution_example)
  from keys valid count no_taps taps show ?thesis
    by blast
qed

lemma half_not_int: "(1 / 2 :: real) \<notin> \<int>"
proof
  assume "(1 / 2 :: real) \<in> \<int>"
  then obtain k :: int where "(1 / 2 :: real) = of_int k" by (rule Ints_cases)
  then have "(1 :: real) = of_int (2 * k)" by simp
  then have "(1 :: int) = 2 * k" by linarith
  then show False by presburger
qed

text \<open>
  C2, as stated, fails: with no "Yes" answer and the taps 0, 0.5, 1.01 the intervals are
  0.5 and 0.51, their standard deviation is 0.005, and the score is 0.5, not an integer.
\<close>

theorem analyze_risk_score_not_integer:
  "analyze_risk_score [] (Some [0, 1 / 2, 101 / 100]) \<notin> \<int>"
proof -
  have score: "analyze_risk_score [] (Some [0, 1 / 2, 101 / 100]) = 1 / 2"
    by (simp add: analyze_risk_score_cases symptom_score_def risk_contribution_example)
  show ?thesis
    unfolding score by (rule half_not_int)
qed

text \<open>
  C2, amended. For responses over the catalog the score is a single number in
  [0, 100], in general not an integer: it is never truncated or rounded. With a
  non-empty tap sequence it is \<open>min(100, 10 * count + risk_contribution)\<close>, the sum
  taken in real arithmetic; without taps (absent or empty) it is \<open>10 * count\<close>. Here
  \<open>count\<close> is the number of ids whose answer is "Yes".
\<close>

theorem analyze_risk_score_unrounded:
  assumes "distinct (map fst responses)"
    and "set (map fst responses) \<subseteq> set (map fst load_symptom_checklist)"
  shows "(let yes_count = card {s. (s, ''Yes'') \<in> set responses}
          in 0 \<le> analyze_risk_score responses taps \<and>
             analyze_risk_score responses taps \<le> 100 \<and>
             (case taps of
                Some (t # ts) \<Rightarrow>
                  analyze_risk_score responses taps =
                    min 100 (10 * real yes_count +
                             risk_contribution (process_tapping_data (t # ts)))
              | _ \<Rightarrow> analyze_risk_score responses taps = 10 * real yes_count))"
proof -
  define yes_count where "yes_count = card {s. (s, ''Yes'') \<in> set responses}"
  have count: "symptom_score responses = yes_count"
    unfolding yes_count_def by (rule symptom_score_card [OF assms(1)])
  have le: "10 * real yes_count \<le> 100"
    using symptom_score_le_10 [OF assms] by (simp add: count)
  have rc: "0 \<le> risk_contribution (process_tapping_data ts)" for ts
    by (rule risk_contribution_nonneg)
  have "0 \<le> analyze_risk_score responses taps \<and>
        analyze_risk_score responses taps \<le> 100 \<and>
        (case taps of
           Some (t # ts) \<Rightarrow>
             analyze_risk_score responses taps =
               min 100 (10 * real yes_count +
                        risk_contribution (process_tapping_data (t # ts)))
         | _ \<Rightarrow> analyze_risk_score responses taps = 10 * real yes_count)"
  proof (cases taps)
    case None
    then show ?thesis using le by (simp add: analyze_risk_score_cases count)
  next
    case (Some ts)
    show ?thesis
    proof (cases ts)
      case Nil
      with Some le show ?thesis by (simp add: analyze_risk_score_cases count)
    next
      case (Cons t ts')
      with Some rc [of "t # ts'"] show ?thesis
        by (simp add: analyze_risk_score_cases count)
    qed
  qed
  then show ?thesis
    unfolding Let_def yes_count_def [symmetric] .
qed

theorem analyze_risk_score_unrounded_witness:
  "distinct (map fst [(''tremor'', ''Yes''), (''rigidity'', ''No'')]) \<and>
   set (map fst [(''tremor'', ''Yes''), (''rigidity'', ''No'')])
     \<subseteq> set (map fst load_symptom_checklist) \<and>
   card {s. (s, ''Yes'') \<in> set [(''tremor'', ''Yes''), (''rigidity'', ''No'')]} = 1 \<and>
   analyze_risk_score [(''tremor'', ''Yes''), (''rigidity'', ''No'')]
     (Some [0, 1 / 2, 101 / 100]) = 21 / 2"
proof -
  let ?d = "[(''tremor'', ''Yes''), (''rigidity'', ''No'')]"
  have keys: "distinct (map fst ?d)"
    by simp
  have valid: "set (map fst ?d) \<subseteq> set (map fst load_symptom_checklist)"
    by (simp add: load_symptom_checklist_def)
  have "{s. (s, ''Yes'') \<in> set ?d} = {''tremor''}"
    by auto
  then have count: "card {s. (s, ''Yes'') \<in> set ?d} = 1"
    by simp
  have score: "analyze_risk_score ?d (Some [0, 1 / 2, 101 / 100]) = 21 / 2"
    using analyze_risk_score_unrounded
      [OF keys valid, of "Some [0, 1 / 2, 101 / 100]", unfolded Let_def count]
    by (simp add: risk_contribution_example)
  from keys valid count score show ?thesis
    by blast
qed

section \<open>Properties of the dialogue responder\<close>

lemma random_choice_Inr:
  assumes "seq \<noteq> []"
  shows "\<exists>x. random_choice seq g = Inr (x, stl g) \<and> x \<in> set seq"
  using assms by (simp add: random_choice_def)

lemma rules_loop_find:
  "rules_loop rules query g =
     (case find (\<lambda>(pattern, responses). re_search pattern query) rules of
        None \<Rightarrow> random_choice DEFAULT_RESPONSES g
      | Some (pattern, responses) \<Rightarrow> random_choice responses g)"
  by (induction rules) auto

lemma rules_loop_first_match:
  assumes "i < length rules"
    and "re_search (fst (rules ! i)) query"
    and "\<forall>j<i. \<not> re_search (fst (rules ! j)) query"
  shows "rules_loop rules query g = random_choice (snd (rules ! i)) g"
proof -
  have "find (\<lambda>(pattern, responses). re_search pattern query) rules = Some (rules ! i)"
    unfolding find_Some_iff using assms by (auto simp: case_prod_beta)
  then show ?thesis
    by (simp add: rules_loop_find case_prod_beta)
qed

lemma rules_loop_no_match:
  assumes "\<forall>i<length rules. \<not> re_search (fst (rules ! i)) query"
  shows "rules_loop rules query g = random_choice DEFAULT_RESPONSES g"
proof -
  have "find (\<lambda>(pattern, responses). re_search pattern query) rules = None"
    unfolding find_None_iff using assms by (auto simp: in_set_conv_nth)
  then show ?thesis
    by (simp add: rules_loop_find)
qed

lemma length_RESPONSE_RULES: "length RESPONSE_RULES = 5"
  by (simp add: RESPONSE_RULES_def)

lemma responses_nonempty:
  assumes "i < length RESPONSE_RULES"
  shows "snd (RESPONSE_RULES ! i) \<noteq> []"
proof -
  have "\<forall>r \<in> set RESPONSE_RULES. snd r \<noteq> []"
    by (simp add: RESPONSE_RULES_def)
  with assms show ?thesis by (meson nth_mem)
qed

lemma response_sets_disjoint:
  "\<forall>i<5. \<forall>k<5. i \<noteq> k \<longrightarrow>
     set (snd (RESPONSE_RULES ! i)) \<inter> set (snd (RESPONSE_RULES ! k)) = {}"
  by (simp add: RESPONSE_RULES_def eval_nat_numeral All_less_Suc)

lemma response_sets_not_default:
  "\<forall>i<5. set (snd (RESPONSE_RULES ! i)) \<inter> set DEFAULT_RESPONSES = {}"
  by (simp add: RESPONSE_RULES_def DEFAULT_RESPONSES_def eval_nat_numeral All_less_Suc)

lemma str_lower_ascii:
  assumes "str_isascii s"
  shows "str_lower unicode_lower s = map lower_char s"
  using assms by (simp add: str_lower_def)

lemma lower_char_upper:
  "\<forall>k<26. lower_char (''ABCDEFGHIJKLMNOPQRSTUVWXYZ'' ! k) = ''abcdefghijklmnopqrstuvwxyz'' ! k"
  by (simp add: lower_char_def eval_nat_numeral All_less_Suc)

lemma lower_char_other:
  assumes "c \<notin> set ''ABCDEFGHIJKLMNOPQRSTUVWXYZ''"
  shows "lower_char c = c"
proof -
  have "map_of (zip ''ABCDEFGHIJKLMNOPQRSTUVWXYZ'' ''abcdefghijklmnopqrstuvwxyz'') c = None"
    using assms by (subst map_of_zip_is_None) simp_all
  then show ?thesis by (simp add: lower_char_def)
qed

lemma str_lower_alphabet:
  "str_lower unicode_lower ''ABCDEFGHIJKLMNOPQRSTUVWXYZ'' = ''abcdefghijklmnopqrstuvwxyz''"
  by (simp add: str_lower_def str_isascii_def lower_char_def)

lemma exercise_query_lower:
  "str_lower unicode_lower ''What exercises help?'' = ''what exercises help?''"
  by (simp add: str_lower_def str_isascii_def lower_char_def)

lemma exercise_query_upper:
  "str_lower unicode_lower ''WHAT EXERCISES HELP?'' = ''what exercises help?''"
  by (simp add: str_lower_def str_isascii_def lower_char_def)

lemma exercise_query_response:
  "rules_loop RESPONSE_RULES ''what exercises help?'' g =
     random_choice
       [''Regular exercise like walking or swimming can help maintain mobility.'',
        ''Physical therapy is often recommended to improve balance and coordination.''] g"
  by (simp add: RESPONSE_RULES_def re_search_def sublist_code prefix_code)

lemma exercise_response_in:
  assumes "str_lower unicode_lower query = ''what exercises help?''"
  shows "\<exists>response.
      get_response unicode_lower query risk g = Inr (response, stl g) \<and>
      response \<in> {''Regular exercise like walking or swimming can help maintain mobility.'',
                  ''Physical therapy is often recommended to improve balance and coordination.''}"
proof -
  have "get_response unicode_lower query risk g =
     random_choice
       [''Regular exercise like walking or swimming can help maintain mobility.'',
        ''Physical therapy is often recommended to improve balance and coordination.''] g"
    by (simp add: get_response_def assms exercise_query_response)
  then show ?thesis
    using random_choice_Inr [of "[''Regular exercise like walking or swimming can help maintain mobility.'',
        ''Physical therapy is often recommended to improve balance and coordination.'']" g]
    by auto
qed


text \<open>
  C6. The responder lower-cases the query: on an ASCII query every letter A to Z is
  replaced by its lower-case letter and every other character stays, and the answer
  depends on the query only through its lower-cased form. It then tests the five
  patterns on the lower-cased query in the order of declaration: symptoms, treatment,
  exercise, diet, risk factors. When the pattern of topic \<open>i\<close> matches and no
  earlier one does, the call returns, takes one draw, and its response is one of topic
  \<open>i\<close>'s responses: it is in no other topic's set and not in the default set,
  whatever later patterns match too. When no pattern matches, the response is one of
  the default responses. For "What exercises help?", and for the same query in capital
  letters, the response is one of the two responses of the exercise topic, for every
  generator state.
\<close>

theorem get_response_first_declared_topic:
  "str_lower unicode_lower ''ABCDEFGHIJKLMNOPQRSTUVWXYZ'' = ''abcdefghijklmnopqrstuvwxyz'' \<and>
   (str_isascii query \<longrightarrow>
      length (str_lower unicode_lower query) = length query \<and>
      (\<forall>i<length query.
         (query ! i \<notin> set ''ABCDEFGHIJKLMNOPQRSTUVWXYZ'' \<longrightarrow>
            str_lower unicode_lower query ! i = query ! i) \<and>
         (\<forall>k<26. query ! i = ''ABCDEFGHIJKLMNOPQRSTUVWXYZ'' ! k \<longrightarrow>
            str_lower unicode_lower query ! i = ''abcdefghijklmnopqrstuvwxyz'' ! k))) \<and>
   (\<forall>query'. str_lower unicode_lower query' = str_lower unicode_lower query \<longrightarrow>
      get_response unicode_lower query' risk g = get_response unicode_lower query risk g) \<and>
   map fst RESPONSE_RULES =
     [''symptom|sign|feel'', ''treat|medication|drug'', ''exercise|activity|physical'',
      ''diet|food|eat'', ''risk|chance|likely''] \<and>
   (\<forall>i<length RESPONSE_RULES.
      re_search (fst (RESPONSE_RULES ! i)) (str_lower unicode_lower query) \<longrightarrow>
      (\<forall>j<i. \<not> re_search (fst (RESPONSE_RULES ! j)) (str_lower unicode_lower query)) \<longrightarrow>
      (\<exists>response.
         get_response unicode_lower query risk g = Inr (response, stl g) \<and>
         response \<in> set (snd (RESPONSE_RULES ! i)) \<and>
         (\<forall>k<length RESPONSE_RULES. k \<noteq> i \<longrightarrow> response \<notin> set (snd (RESPONSE_RULES ! k))) \<and>
         response \<notin> set DEFAULT_RESPONSES)) \<and>
   ((\<forall>i<length RESPONSE_RULES.
       \<not> re_search (fst (RESPONSE_RULES ! i)) (str_lower unicode_lower query)) \<longrightarrow>
      (\<exists>response.
         get_response unicode_lower query risk g = Inr (response, stl g) \<and>
         response \<in> set DEFAULT_RESPONSES)) \<and>
   (\<exists>response.
      get_response unicode_lower ''What exercises help?'' risk g = Inr (response, stl g) \<and>
      response \<in> {''Regular exercise like walking or swimming can help maintain mobility.'',
                  ''Physical therapy is often recommended to improve balance and coordination.''}) \<and>
   (\<exists>response.
      get_response unicode_lower ''WHAT EXERCISES HELP?'' risk g = Inr (response, stl g) \<and>
      response \<in> {''Regular exercise like walking or swimming can help maintain mobility.'',
                  ''Physical therapy is often recommended to improve balance and coordination.''})"
proof -
  have alphabet:
    "str_lower unicode_lower ''ABCDEFGHIJKLMNOPQRSTUVWXYZ'' = ''abcdefghijklmnopqrstuvwxyz''"
    by (rule str_lower_alphabet)
  have ascii: "length (str_lower unicode_lower query) = length query \<and>
      (\<forall>i<length query.
         (query ! i \<notin> set ''ABCDEFGHIJKLMNOPQRSTUVWXYZ'' \<longrightarrow>
            str_lower unicode_lower query ! i = query ! i) \<and>
         (\<forall>k<26. query ! i = ''ABCDEFGHIJKLMNOPQRSTUVWXYZ'' ! k \<longrightarrow>
            str_lower unicode_lower query ! i = ''abcdefghijklmnopqrstuvwxyz'' ! k))"
    if "str_isascii query"
  proof -
    have low: "str_lower unicode_lower query = map lower_char query"
      by (rule str_lower_ascii [OF that])
    show ?thesis
      unfolding low using lower_char_upper lower_char_other by simp
  qed
  have only_lower:
    "\<forall>query'. str_lower unicode_lower query' = str_lower unicode_lower query \<longrightarrow>
      get_response unicode_lower query' risk g = get_response unicode_lower query risk g"
    by (simp add: get_response_def)
  have order: "map fst RESPONSE_RULES =
     [''symptom|sign|feel'', ''treat|medication|drug'', ''exercise|activity|physical'',
      ''diet|food|eat'', ''risk|chance|likely'']"
    by (simp add: RESPONSE_RULES_def)
  have first_wins: "\<exists>response.
         get_response unicode_lower query risk g = Inr (response, stl g) \<and>
         response \<in> set (snd (RESPONSE_RULES ! i)) \<and>
         (\<forall>k<length RESPONSE_RULES. k \<noteq> i \<longrightarrow> response \<notin> set (snd (RESPONSE_RULES ! k))) \<and>
         response \<notin> set DEFAULT_RESPONSES"
    if i: "i < length RESPONSE_RULES"
      and hit: "re_search (fst (RESPONSE_RULES ! i)) (str_lower unicode_lower query)"
      and first: "\<forall>j<i. \<not> re_search (fst (RESPONSE_RULES ! j)) (str_lower unicode_lower query)"
    for i
  proof -
    have "get_response unicode_lower query risk g = random_choice (snd (RESPONSE_RULES ! i)) g"
      unfolding get_response_def by (rule rules_loop_first_match [OF i hit first])
    moreover obtain response where
      "random_choice (snd (RESPONSE_RULES ! i)) g = Inr (response, stl g)"
      and mem: "response \<in> set (snd (RESPONSE_RULES ! i))"
      using random_choice_Inr [OF responses_nonempty [OF i]] by blast
    moreover have "\<forall>k<length RESPONSE_RULES. k \<noteq> i \<longrightarrow> response \<notin> set (snd (RESPONSE_RULES ! k))"
      using response_sets_disjoint i mem by (auto simp: length_RESPONSE_RULES)
    moreover have "response \<notin> set DEFAULT_RESPONSES"
      using response_sets_not_default i mem by (auto simp: length_RESPONSE_RULES)
    ultimately show ?thesis
      by auto
  qed
  have default: "\<exists>response.
         get_response unicode_lower query risk g = Inr (response, stl g) \<and>
         response \<in> set DEFAULT_RESPONSES"
    if none: "\<forall>i<length RESPONSE_RULES.
       \<not> re_search (fst (RESPONSE_RULES ! i)) (str_lower unicode_lower query)"
  proof -
    have "get_response unicode_lower query risk g = random_choice DEFAULT_RESPONSES g"
      unfolding get_response_def by (rule rules_loop_no_match [OF none])
    moreover have "DEFAULT_RESPONSES \<noteq> []"
      by (simp add: DEFAULT_RESPONSES_def)
    ultimately show ?thesis
      using random_choice_Inr [of DEFAULT_RESPONSES g] by auto
  qed
  note example = exercise_response_in [OF exercise_query_lower, of unicode_lower risk g]
  note example_upper = exercise_response_in [OF exercise_query_upper, of unicode_lower risk g]
  from alphabet ascii only_lower order first_wins default example example_upper
  show ?thesis
    by (intro conjI impI allI) blast+
qed

theorem get_response_first_declared_topic_witness:
  "str_isascii ''Which EXERCISE helps my SYMPTOMS?'' \<and>
   str_lower (\<lambda>s. s) ''Which EXERCISE helps my SYMPTOMS?'' = ''which exercise helps my symptoms?'' \<and>
   \<not> re_search (fst (RESPONSE_RULES ! 0)) ''Which EXERCISE helps my SYMPTOMS?'' \<and>
   re_search (fst (RESPONSE_RULES ! 0)) (str_lower (\<lambda>s. s) ''Which EXERCISE helps my SYMPTOMS?'') \<and>
   re_search (fst (RESPONSE_RULES ! 2)) (str_lower (\<lambda>s. s) ''Which EXERCISE helps my SYMPTOMS?'') \<and>
   (\<exists>response.
      get_response (\<lambda>s. s) ''Which EXERCISE helps my SYMPTOMS?'' None (sconst 0) =
        Inr (response, stl (sconst 0)) \<and>
      response \<in> set (snd (RESPONSE_RULES ! 0)) \<and>
      response \<notin> set (snd (RESPONSE_RULES ! 2)))"
proof -
  have ascii: "str_isascii ''Which EXERCISE helps my SYMPTOMS?''"
    by (simp add: str_isascii_def)
  have low: "str_lower (\<lambda>s. s) ''Which EXERCISE helps my SYMPTOMS?'' =
      ''which exercise helps my symptoms?''"
    by (simp add: str_lower_def str_isascii_def lower_char_def)
  have raw: "\<not> re_search (fst (RESPONSE_RULES ! 0)) ''Which EXERCISE helps my SYMPTOMS?''"
    by (simp add: RESPONSE_RULES_def re_search_def sublist_code prefix_code)
  have m0: "re_search (fst (RESPONSE_RULES ! 0))
      (str_lower (\<lambda>s. s) ''Which EXERCISE helps my SYMPTOMS?'')"
    unfolding low by (simp add: RESPONSE_RULES_def re_search_def sublist_code prefix_code)
  have m2: "re_search (fst (RESPONSE_RULES ! 2))
      (str_lower (\<lambda>s. s) ''Which EXERCISE helps my SYMPTOMS?'')"
    unfolding low by (simp add: RESPONSE_RULES_def re_search_def sublist_code prefix_code)
  note first_wins =
    get_response_first_declared_topic
      [of "\<lambda>s. s" "''Which EXERCISE helps my SYMPTOMS?''" None "sconst 0",
       THEN conjunct2, THEN conjunct2, THEN conjunct2, THEN conjunct2, THEN conjunct1,
       rule_format, of 0]
  from first_wins m0 obtain response where
    "get_response (\<lambda>s. s) ''Which EXERCISE helps my SYMPTOMS?'' None (sconst 0) =
       Inr (response, stl (sconst 0))"
    and "response \<in> set (snd (RESPONSE_RULES ! 0))"
    and "\<forall>k<length RESPONSE_RULES. k \<noteq> 0 \<longrightarrow> response \<notin> set (snd (RESPONSE_RULES ! k))"
    by (auto simp: length_RESPONSE_RULES)
  moreover from this(3) have "response \<notin> set (snd (RESPONSE_RULES ! 2))"
    by (simp add: length_RESPONSE_RULES)
  ultimately show ?thesis
    using ascii low raw m0 m2 by blast
qed

text \<open>
  C10. For every query, every two \<open>risk_score\<close> arguments (\<^verbatim>\<open>None\<close> included) and the
  same generator state, \<open>get_response\<close> gives the same result: the same response (or
  the same exception) and the same next generator state. The argument is never read.
\<close>

theorem get_response_ignores_risk_score:
  "get_response unicode_lower query risk1 g = get_response unicode_lower query risk2 g"
  by (simp add: get_response_def)

section \<open>Properties of the assistant page\<close>

lemma get_response_returns:
  "\<exists>response. get_response unicode_lower query risk g = Inr (response, stl g)"
proof -
  have nonempty: "\<forall>r \<in> set RESPONSE_RULES. snd r \<noteq> []"
    by (simp add: RESPONSE_RULES_def)
  have default: "DEFAULT_RESPONSES \<noteq> []"
    by (simp add: DEFAULT_RESPONSES_def)
  show ?thesis
  proof (cases "find (\<lambda>(pattern, responses). re_search pattern (str_lower unicode_lower query))
      RESPONSE_RULES")
    case None
    then show ?thesis
      using random_choice_Inr [OF default, of g]
      by (auto simp: get_response_def rules_loop_find)
  next
    case (Some rule)
    then have "rule \<in> set RESPONSE_RULES"
      by (metis find_Some_iff nth_mem)
    with nonempty have "snd rule \<noteq> []"
      by blast
    from random_choice_Inr [OF this, of g] Some show ?thesis
      by (auto simp: get_response_def rules_loop_find case_prod_beta)
  qed
qed

text \<open>
  C7. A call of \<open>handle_user_query\<close> in a session whose history exists returns, and
  the history afterwards is the history before followed by exactly two entries: the
  query with role "user", then the response of \<open>get_response\<close> with role "assistant".
  The other session values (risk score, symptoms, tapping data, report flag) are
  unchanged.
\<close>

theorem handle_user_query_appends_two:
  assumes "messages (state r) = Some history"
  shows "\<exists>response r'.
           handle_user_query unicode_lower query r = Inr r' \<and>
           get_response unicode_lower query (risk_score (state r)) (random_state r) =
             Inr (response, random_state r') \<and>
           messages (state r') =
             Some (history @ [\<lparr>role = ''user'', content = query\<rparr>,
                              \<lparr>role = ''assistant'', content = response\<rparr>]) \<and>
           risk_score (state r') = risk_score (state r) \<and>
           symptoms (state r') = symptoms (state r) \<and>
           tapping_data (state r') = tapping_data (state r) \<and>
           report_generated (state r') = report_generated (state r)"
proof -
  obtain response where
    resp: "get_response unicode_lower query (risk_score (state r)) (random_state r) =
             Inr (response, stl (random_state r))"
    using get_response_returns by blast
  show ?thesis
    using assms resp
    by (simp add: handle_user_query_def render_def set_messages_def)
qed

theorem handle_user_query_appends_two_witness:
  "messages (state \<lparr>state = initial_session_state\<lparr>messages := Some []\<rparr>, screen = [],
                     random_state = sconst 0\<rparr>) = Some [] \<and>
   (\<exists>r'. handle_user_query (\<lambda>s. s) ''What exercises help?''
            \<lparr>state = initial_session_state\<lparr>messages := Some []\<rparr>, screen = [],
             random_state = sconst 0\<rparr> = Inr r' \<and>
         messages (state r') =
           Some [\<lparr>role = ''user'', content = ''What exercises help?''\<rparr>,
                 \<lparr>role = ''assistant'',
                  content = ''Regular exercise like walking or swimming can help maintain mobility.''\<rparr>])"
  using handle_user_query_appends_two
    [of "\<lparr>state = initial_session_state\<lparr>messages := Some []\<rparr>, screen = [],
          random_state = sconst 0\<rparr>" "[]" "\<lambda>s. s" "''What exercises help?''"]
  by (auto simp: initial_session_state_def get_response_def exercise_query_lower
      exercise_query_response random_choice_def)

lemma show_detect_report_generated:
  "report_generated (show_detect inp s) = report_generated s"
  by (simp add: show_detect_def Let_def split: option.splits)

lemma show_connect_report_generated:
  "report_generated (state (show_connect r)) =
     (report_generated (state r) \<or> risk_score (state r) \<noteq> None)"
  by (simp add: show_connect_def render_def Let_def split: option.splits)

text \<open>
  C5. The code keeps the workflow stage "report generated" in the session flag
  \<^verbatim>\<open>report_generated\<close>, which only \<open>show_connect\<close> sets. While the flag is
  false, the Personalize page returns normally after showing its header and the
  guidance warning, whatever the user pressed or typed: no query is handled, and the
  session state (risk score, symptoms, tapping data, history) and the generator are
  the same as before.
\<close>

theorem show_personalize_gate:
  assumes "\<not> report_generated (state r)"
  shows "show_personalize unicode_lower inp r =
           Inr (r\<lparr>screen := screen r @
                   [Header ''Personalized Care Plan'',
                    Warning ''Please generate a report in the Connect section first.'']\<rparr>) \<and>
         (\<forall>r'. show_personalize unicode_lower inp r = Inr r' \<longrightarrow>
            state r' = state r \<and> random_state r' = random_state r)"
  using assms by (simp add: show_personalize_def render_def Let_def)

theorem show_personalize_gate_witness:
  "\<not> report_generated
       (state \<lparr>state = initial_session_state\<lparr>risk_score := Some 20\<rparr>, screen = [],
               random_state = sconst 0\<rparr>) \<and>
   show_personalize (\<lambda>s. s)
     \<lparr>question_clicked = (\<lambda>i. True), chat_prompt = Some ''What exercises help?'',
      clear_chat = True\<rparr>
     \<lparr>state = initial_session_state\<lparr>risk_score := Some 20\<rparr>, screen = [],
      random_state = sconst 0\<rparr> =
   Inr \<lparr>state = initial_session_state\<lparr>risk_score := Some 20\<rparr>,
        screen = [Header ''Personalized Care Plan'',
                  Warning ''Please generate a report in the Connect section first.''],
        random_state = sconst 0\<rparr>"
  using show_personalize_gate
    [of "\<lparr>state = initial_session_state\<lparr>risk_score := Some 20\<rparr>, screen = [],
          random_state = sconst 0\<rparr>"
        "\<lambda>s. s"
        "\<lparr>question_clicked = (\<lambda>i. True), chat_prompt = Some ''What exercises help?'',
          clear_chat = True\<rparr>"]
  by (simp add: initial_session_state_def)

section \<open>Properties of the reports\<close>

lemma subseq_keys_subset:
  assumes "subseq xs ys"
  shows "set xs \<subseteq> set ys"
  using assms by (induction rule: list_emb.induct) auto

lemma positive_symptoms_catalog_order:
  "subseq (map fst d) catalog \<Longrightarrow> distinct catalog \<Longrightarrow>
     positive_symptoms d = filter (\<lambda>s. map_of d s = Some ''Yes'') catalog"
proof (induction catalog arbitrary: d)
  case Nil
  then show ?case by (cases d) (simp_all add: positive_symptoms_def)
next
  case (Cons c cs)
  show ?case
  proof (cases d)
    case Nil
    then show ?thesis by (simp add: positive_symptoms_def)
  next
    case (Cons p d')
    obtain k v where p: "p = (k, v)" by (cases p)
    show ?thesis
    proof (cases "k = c")
      case True
      from Cons.prems(1) have sub: "subseq (map fst d') cs"
        by (simp add: Cons p True)
      from Cons.prems(2) have fresh: "c \<notin> set cs" and dist: "distinct cs"
        by simp_all
      have IH: "positive_symptoms d' = filter (\<lambda>s. map_of d' s = Some ''Yes'') cs"
        by (rule Cons.IH [OF sub dist])
      have same: "filter (\<lambda>s. map_of d s = Some ''Yes'') cs =
          filter (\<lambda>s. map_of d' s = Some ''Yes'') cs"
        using fresh by (intro filter_cong) (auto simp: Cons p True)
      have "positive_symptoms d = (if v = ''Yes'' then [c] else []) @ positive_symptoms d'"
        by (simp add: positive_symptoms_def Cons p True)
      also have "\<dots> = filter (\<lambda>s. map_of d s = Some ''Yes'') (c # cs)"
        by (simp add: IH same) (simp add: Cons p True)
      finally show ?thesis .
    next
      case False
      from Cons.prems(1) have sub: "subseq (map fst d) cs"
        by (simp add: Cons p False)
      from Cons.prems(2) have fresh: "c \<notin> set cs" and dist: "distinct cs"
        by simp_all
      from subseq_keys_subset [OF sub] fresh have "c \<notin> fst ` set d"
        by auto
      then have "map_of d c = None"
        by (simp add: map_of_eq_None_iff)
      then show ?thesis
        using Cons.IH [OF sub dist] by simp
    qed
  qed
qed

lemma catalog_distinct: "distinct (map fst load_symptom_checklist)"
  by (simp add: load_symptom_checklist_def)

lemma radio_value_Yes: "radio_value b = ''Yes'' \<longleftrightarrow> b"
  by (simp add: radio_value_def)

lemma checklist_loop_empty:
  "checklist_loop choice [] =
     map (\<lambda>(s, q). (s, radio_value (choice s))) load_symptom_checklist"
  by (simp add: checklist_loop_def load_symptom_checklist_def)

lemma checklist_loop_again:
  "checklist_loop choice (checklist_loop choice0 []) = checklist_loop choice []"
  by (simp add: checklist_loop_def load_symptom_checklist_def)

lemma keys_checklist_loop_empty:
  "map fst (checklist_loop choice []) = map fst load_symptom_checklist"
  by (simp add: checklist_loop_empty load_symptom_checklist_def)

lemma symptoms_show_detect:
  "symptoms (show_detect inp s) = checklist_loop (radio inp) (symptoms s)"
  by (simp add: show_detect_def Let_def split: option.splits)

lemma symptoms_reachable:
  "symptoms (fold show_detect inputs initial_session_state) =
     (if inputs = [] then [] else checklist_loop (radio (last inputs)) [])"
proof (induction inputs rule: rev_induct)
  case Nil
  then show ?case by (simp add: initial_session_state_def)
next
  case (snoc inp inputs)
  then show ?case
    by (simp add: symptoms_show_detect checklist_loop_again)
qed

lemma symptoms_reachable_subseq:
  "subseq (map fst (symptoms (fold show_detect inputs initial_session_state)))
     (map fst load_symptom_checklist)"
  by (simp add: symptoms_reachable keys_checklist_loop_empty)


lemma map_of_snapshot:
  "map_of (map (\<lambda>(s, v). (s, JString v)) d) s = map_option JString (map_of d s)"
  by (induction d) auto

text \<open>
  C9. For every responses dict, score and clock reading, the report has exactly the
  four fields \<open>risk_score\<close>, \<open>symptoms\<close>, \<open>date\<close> and \<open>recommendations\<close>, in that
  order: \<open>risk_score\<close> is the score, \<open>symptoms\<close> is a copy of the responses (the same
  ids in the same order, each with its answer), \<open>date\<close> is the clock reading, and
  \<open>recommendations\<close> is the same list of three strings for every score (and every
  other argument).
\<close>

theorem generate_report_fields:
  "json_keys (generate_report symptoms_dict risk now) =
     [''risk_score'', ''symptoms'', ''date'', ''recommendations''] \<and>
   json_get ''risk_score'' (generate_report symptoms_dict risk now) = Some (JNumber risk) \<and>
   json_get ''symptoms'' (generate_report symptoms_dict risk now) =
     Some (JObject (map (\<lambda>(s, v). (s, JString v)) symptoms_dict)) \<and>
   (\<forall>s. json_get s (JObject (map (\<lambda>(s, v). (s, JString v)) symptoms_dict)) =
        map_option JString (map_of symptoms_dict s)) \<and>
   json_get ''date'' (generate_report symptoms_dict risk now) = Some (JString now) \<and>
   json_get ''recommendations'' (generate_report symptoms_dict risk now) =
     Some (JArray
       [JString ''Discuss these results with a healthcare provider'',
        JString ''Monitor symptoms regularly'',
        JString ''Consider lifestyle modifications like regular exercise and a balanced diet'']) \<and>
   json_get ''recommendations'' (generate_report symptoms_dict risk now) =
     json_get ''recommendations'' (generate_report symptoms_dict' risk' now')"
  by (simp add: generate_report_def json_keys_def json_get_def map_of_snapshot)

text \<open>
  C8. The responses are the session dict, and its only writer is the checklist loop
  of \<open>show_detect\<close>, which assigns the ids in catalog order: after any sequence of
  runs of the Detect page the keys of the dict are a subsequence of the catalog ids
  (none, or all ten in order). For every responses dict whose keys follow the catalog
  in this way, the text report is the fixed text around one symptoms line, and that
  line lists exactly the ids whose answer is "Yes", joined by ", " in catalog order;
  when there is none, the line is "None", so the report contains "None".
\<close>

theorem generate_text_report_symptoms:
  assumes "subseq (map fst symptoms_dict) (map fst load_symptom_checklist)"
  shows
    "(let positive = filter (\<lambda>s. map_of symptoms_dict s = Some ''Yes'')
                       (map fst load_symptom_checklist);
          line = (if positive = [] then ''None'' else str_join '', '' positive)
      in generate_text_report symptoms_dict risk_text now =
           ''NeuroBridge Health Report'' @ [CHR 0x0A] @
           ''Generated on: '' @ now @ [CHR 0x0A, CHR 0x0A] @
           ''Risk Score: '' @ risk_text @ ''%'' @ [CHR 0x0A, CHR 0x0A] @
           ''Symptoms reported:'' @ [CHR 0x0A] @
           line @ [CHR 0x0A, CHR 0x0A] @
           ''Recommendations:'' @ [CHR 0x0A] @
           ''- Discuss these results with a healthcare provider'' @ [CHR 0x0A] @
           ''- Monitor symptoms regularly'' @ [CHR 0x0A] @
           ''- Consider lifestyle modifications like regular exercise and a balanced diet'' @
           [CHR 0x0A, CHR 0x0A] @
           ''Note: This is a screening tool, not a medical diagnosis.'' @ [CHR 0x0A] \<and>
         (positive = [] \<longrightarrow>
            sublist ''None'' (generate_text_report symptoms_dict risk_text now))) \<and>
     (\<forall>inputs.
        subseq (map fst (symptoms (fold show_detect inputs initial_session_state)))
          (map fst load_symptom_checklist))"
proof -
  define positive where
    "positive = filter (\<lambda>s. map_of symptoms_dict s = Some ''Yes'')
                  (map fst load_symptom_checklist)"
  define line where "line = (if positive = [] then ''None'' else str_join '', '' positive)"
  define before where
    "before = ''NeuroBridge Health Report'' @ [CHR 0x0A] @
         ''Generated on: '' @ now @ [CHR 0x0A, CHR 0x0A] @
         ''Risk Score: '' @ risk_text @ ''%'' @ [CHR 0x0A, CHR 0x0A] @
         ''Symptoms reported:'' @ [CHR 0x0A]"
  define after where
    "after = [CHR 0x0A, CHR 0x0A] @
         ''Recommendations:'' @ [CHR 0x0A] @
         ''- Discuss these results with a healthcare provider'' @ [CHR 0x0A] @
         ''- Monitor symptoms regularly'' @ [CHR 0x0A] @
         ''- Consider lifestyle modifications like regular exercise and a balanced diet'' @
         [CHR 0x0A, CHR 0x0A] @
         ''Note: This is a screening tool, not a medical diagnosis.'' @ [CHR 0x0A]"
  have pos: "positive_symptoms symptoms_dict = positive"
    unfolding positive_def
    by (rule positive_symptoms_catalog_order [OF assms catalog_distinct])
  have report: "generate_text_report symptoms_dict risk_text now = before @ line @ after"
    by (simp add: generate_text_report_def Let_def pos line_def before_def after_def)
  have none: "sublist ''None'' (generate_text_report symptoms_dict risk_text now)"
    if "positive = []"
  proof -
    from that have "line = ''None''" by (simp add: line_def)
    then show ?thesis
      unfolding report sublist_def by blast
  qed
  have reachable: "\<forall>inputs.
      subseq (map fst (symptoms (fold show_detect inputs initial_session_state)))
        (map fst load_symptom_checklist)"
    by (simp add: symptoms_reachable_subseq)
  from report none reachable show ?thesis
    unfolding Let_def positive_def [symmetric] line_def [symmetric]
    by (simp add: before_def after_def)
qed

theorem generate_text_report_symptoms_witness:
  "subseq (map fst [(''tremor'', ''Yes''), (''rigidity'', ''No''), (''gait'', ''Yes'')])
     (map fst load_symptom_checklist) \<and>
   sublist (''Symptoms reported:'' @ [CHR 0x0A] @ ''tremor, gait'' @ [CHR 0x0A])
     (generate_text_report [(''tremor'', ''Yes''), (''rigidity'', ''No''), (''gait'', ''Yes'')]
        ''20'' ''2024-01-01 09:00'') \<and>
   subseq (map fst [(''tremor'', ''No''), (''rigidity'', ''No'')])
     (map fst load_symptom_checklist) \<and>
   sublist (''Symptoms reported:'' @ [CHR 0x0A] @ ''None'' @ [CHR 0x0A])
     (generate_text_report [(''tremor'', ''No''), (''rigidity'', ''No'')] ''0'' ''2024-01-01 09:00'')"
proof -
  have order: "subseq (map fst [(''tremor'', ''Yes''), (''rigidity'', ''No''), (''gait'', ''Yes'')])
     (map fst load_symptom_checklist)"
    by (simp add: load_symptom_checklist_def)
  have order_no: "subseq (map fst [(''tremor'', ''No''), (''rigidity'', ''No'')])
     (map fst load_symptom_checklist)"
    by (simp add: load_symptom_checklist_def)
  have yes: "sublist (''Symptoms reported:'' @ [CHR 0x0A] @ ''tremor, gait'' @ [CHR 0x0A])
     (generate_text_report [(''tremor'', ''Yes''), (''rigidity'', ''No''), (''gait'', ''Yes'')]
        ''20'' ''2024-01-01 09:00'')"
    using generate_text_report_symptoms [OF order, of "''20''" "''2024-01-01 09:00''"]
    by (simp add: Let_def load_symptom_checklist_def sublist_code prefix_code)
  have no: "sublist (''Symptoms reported:'' @ [CHR 0x0A] @ ''None'' @ [CHR 0x0A])
     (generate_text_report [(''tremor'', ''No''), (''rigidity'', ''No'')] ''0'' ''2024-01-01 09:00'')"
    using generate_text_report_symptoms [OF order_no, of "''0''" "''2024-01-01 09:00''"]
    by (simp add: Let_def load_symptom_checklist_def sublist_code prefix_code)
  from order yes order_no no show ?thesis
    by blast
qed

end
